theory Spec2Isabelle
  imports Main "HOL-Library.Sublist" "HOL-Library.AList"
begin

section \<open>Series Codex: a shallow embedding of \<^verbatim>\<open>newfile.py\<close>\<close>

text \<open>
  The program keeps one document (a nested dictionary) in memory, changes it from menu
  handlers and rewrites it to a JSON file after each change. The embedding below follows the
  handlers one by one. What a handler reads from the terminal and from the clock is a
  parameter of the corresponding function; what it changes in the document is the
  function's result.
\<close>

subsection \<open>Text\<close>

text \<open>
  A Python \<^verbatim>\<open>str\<close> is modelled as a \<^typ>\<open>string\<close> whose characters are the code points
  \<^verbatim>\<open>U+0000\<close> to \<^verbatim>\<open>U+00FF\<close>; on these \<^verbatim>\<open>str.lower\<close>, \<^verbatim>\<open>str.isdigit\<close>,
  \<^verbatim>\<open>str.strip\<close> and \<^verbatim>\<open>int\<close> are written out below as Python defines them. The only
  character of the program's own messages outside this range is the em dash
  (\<^verbatim>\<open>U+2014\<close>); it is written as its three UTF-8 bytes. No operation of the program
  inspects message text.
\<close>

definition em_dash :: string where
  "em_dash = [CHR 0xE2, CHR 0x80, CHR 0x94]"

definition lower_char :: "char \<Rightarrow> char" where
  \<comment> \<open>the upper-case letters below \<^verbatim>\<open>U+0100\<close> are A to Z and \<^verbatim>\<open>U+00C0\<close> to \<^verbatim>\<open>U+00DE\<close>
      without the multiplication sign \<^verbatim>\<open>U+00D7\<close>; each has its lower case 32 places up\<close>
  "lower_char c =
     (let n = (of_char c :: nat) in
      if (65 \<le> n \<and> n \<le> 90) \<or> (192 \<le> n \<and> n \<le> 222 \<and> n \<noteq> 215)
      then char_of (n + 32) else c)"

definition lower :: "string \<Rightarrow> string" where
  "lower s = map lower_char s"

definition str_in :: "string \<Rightarrow> string \<Rightarrow> bool" where
  \<comment> \<open>Python's \<^verbatim>\<open>needle in haystack\<close> on strings: a contiguous occurrence\<close>
  "str_in needle haystack = sublist needle haystack"

fun join :: "string \<Rightarrow> string list \<Rightarrow> string" where
  "join sep [] = []"
| "join sep [x] = x"
| "join sep (x # y # ys) = x @ sep @ join sep (y # ys)"

subsection \<open>Personality analysis\<close>

definition conscientiousness_sentence :: string where
  "conscientiousness_sentence =
     ''High conscientiousness '' @ em_dash @ '' likely reliable, structured, and plan-driven.''"

definition agreeableness_sentence :: string where
  "agreeableness_sentence =
     ''High agreeableness '' @ em_dash @ '' likely cooperative and empathetic.''"

definition low_agreeableness_sentence :: string where
  "low_agreeableness_sentence =
     ''Low agreeableness '' @ em_dash @ '' may be blunt or confrontational.''"

definition openness_sentence :: string where
  "openness_sentence =
     ''High openness '' @ em_dash @ '' imaginative and curious; likely to pursue novel choices.''"

definition sensitivity_sentence :: string where
  "sensitivity_sentence =
     ''Emotional sensitivity '' @ em_dash @ '' may react strongly under stress.''"

definition outgoing_sentence :: string where
  "outgoing_sentence =
     ''Outgoing '' @ em_dash @ '' gains energy from others, socially proactive.''"

definition reserved_sentence :: string where
  "reserved_sentence =
     ''Reserved '' @ em_dash @ '' internal processing, may prefer solitude or a small circle.''"

definition no_signal_message :: string where
  "no_signal_message =
     ''No strong signals detected from input; personality summary unavailable.''"

definition personality_traits :: "string \<Rightarrow> string list" where
  \<comment> \<open>the list \<^verbatim>\<open>traits\<close> after the seven tests, \<^verbatim>\<open>t\<close> being the lower-cased input\<close>
  "personality_traits t =
     (if str_in ''conscientious'' t \<or> str_in ''conscientiousness'' t \<or> str_in ''organized'' t
      then [conscientiousness_sentence] else [])
   @ (if str_in ''agreeable'' t \<or> str_in ''kind'' t \<or> str_in ''friendly'' t
      then [agreeableness_sentence] else [])
   @ (if str_in ''low agree'' t \<or> str_in ''not agreeable'' t \<or> str_in ''blunt'' t
      then [low_agreeableness_sentence] else [])
   @ (if str_in ''open'' t \<or> str_in ''curious'' t \<or> str_in ''creative'' t
      then [openness_sentence] else [])
   @ (if str_in ''neurotic'' t \<or> str_in ''anxious'' t \<or> str_in ''sensitive'' t
      then [sensitivity_sentence] else [])
   @ (if str_in ''extro'' t \<or> str_in ''outgoing'' t \<or> str_in ''social'' t
      then [outgoing_sentence] else [])
   @ (if str_in ''intro'' t \<or> str_in ''quiet'' t \<or> str_in ''reserved'' t
      then [reserved_sentence] else [])"

definition analyze_personality_text :: "string \<Rightarrow> string" where
  "analyze_personality_text personality_text =
     (let t = lower personality_text;
          traits = personality_traits t
      in if traits = [] then no_signal_message else join '' '' traits)"

subsection \<open>Reading numbers and selections\<close>

datatype error = ValueError

definition isspace_char :: "char \<Rightarrow> bool" where
  \<comment> \<open>the white space that \<^verbatim>\<open>str.strip\<close> and \<^verbatim>\<open>int\<close> skip, below \<^verbatim>\<open>U+0100\<close>\<close>
  "isspace_char c =
     (let n = (of_char c :: nat) in
      (9 \<le> n \<and> n \<le> 13) \<or> (28 \<le> n \<and> n \<le> 32) \<or> n = 133 \<or> n = 160)"

definition strip :: "string \<Rightarrow> string" where
  "strip s = rev (dropWhile isspace_char (rev (dropWhile isspace_char s)))"

definition isdecimal_char :: "char \<Rightarrow> bool" where
  "isdecimal_char c = (let n = (of_char c :: nat) in 48 \<le> n \<and> n \<le> 57)"

definition isdigit_char :: "char \<Rightarrow> bool" where
  \<comment> \<open>\<^verbatim>\<open>str.isdigit\<close> also accepts the superscript digits \<^verbatim>\<open>U+00B2\<close>, \<^verbatim>\<open>U+00B3\<close>
      and \<^verbatim>\<open>U+00B9\<close>, which \<^verbatim>\<open>int\<close> rejects\<close>
  "isdigit_char c =
     (let n = (of_char c :: nat) in (48 \<le> n \<and> n \<le> 57) \<or> n = 178 \<or> n = 179 \<or> n = 185)"

definition isdigit :: "string \<Rightarrow> bool" where
  "isdigit s = (s \<noteq> [] \<and> list_all isdigit_char s)"

definition digit_value :: "char \<Rightarrow> nat" where
  "digit_value c = of_char c - 48"


fun int_digits :: "nat \<Rightarrow> string \<Rightarrow> nat option" where
  \<comment> \<open>the digits after the first one; a single underscore may stand between two digits\<close>
  "int_digits acc [] = Some acc"
| "int_digits acc [c] =
     (if isdecimal_char c then Some (acc * 10 + digit_value c) else None)"
| "int_digits acc (c # d # ds) =
     (if isdecimal_char c then int_digits (acc * 10 + digit_value c) (d # ds)
      else if c = CHR ''_'' \<and> isdecimal_char d then int_digits (acc * 10 + digit_value d) ds
      else None)"

definition int_unsigned :: "string \<Rightarrow> nat option" where
  "int_unsigned s =
     (case s of
        [] \<Rightarrow> None
      | c # cs \<Rightarrow> if isdecimal_char c then int_digits (digit_value c) cs else None)"

definition py_int :: "string \<Rightarrow> int option" where
  \<comment> \<open>Python's \<^verbatim>\<open>int(s)\<close> in base ten; \<^const>\<open>None\<close> stands for \<^verbatim>\<open>ValueError\<close>. The limit that
      recent interpreters put on the number of digits is not modelled.\<close>
  "py_int s =
     (case strip s of
        [] \<Rightarrow> None
      | c # cs \<Rightarrow>
          if c = CHR ''-'' then map_option (\<lambda>n. - int n) (int_unsigned cs)
          else if c = CHR ''+'' then map_option int (int_unsigned cs)
          else map_option int (int_unsigned (c # cs)))"

definition choose_from_list :: "'a list \<Rightarrow> string \<Rightarrow> nat option" where
  \<comment> \<open>\<^verbatim>\<open>line\<close> is the answer to the prompt; with no items nothing is asked\<close>
  "choose_from_list items line =
     (if items = [] then None
      else let s = strip line in
        if s = [] then None
        else case py_int s of
               None \<Rightarrow> None
             | Some n \<Rightarrow>
                 let idx = n - 1 in
                 if 0 \<le> idx \<and> idx < int (length items) then Some (nat idx) else None)"

subsection \<open>Writing numbers\<close>

function str_nat :: "nat \<Rightarrow> string" where
  "str_nat n =
     (if n < 10 then [char_of (48 + n)]
      else str_nat (n div 10) @ [char_of (48 + n mod 10)])"
  by pat_completeness auto
termination
  by (relation "measure (\<lambda>n. n)") auto

declare str_nat.simps [simp del]

definition str_int :: "int \<Rightarrow> string" where
  "str_int i = (if i < 0 then CHR ''-'' # str_nat (nat (- i)) else str_nat (nat i))"

subsection \<open>The document\<close>

text \<open>
  A dictionary with fixed keys is a record. A dictionary whose keys are data (the profiles of
  a book, by character id) is an association list in the order of insertion, read with
  \<^const>\<open>map_of\<close>.
\<close>

record profile =
  role_in_book :: string
  profile_notes :: string

record event =
  ev_when :: string
  ev_desc :: string

record book =
  book_id :: string
  title :: string
  number :: "int option"
  logline :: string
  planned_length :: "int option"
  plot_outline :: "string list"
  characters :: "string list"
  book_char_profiles :: "(string \<times> profile) list"
  book_timeline :: "event list"
  themes :: "string list"
  book_created_at :: string

record character =
  char_id :: string
  name :: string
  role :: string
  personality :: string
  personality_analysis :: string
  series_arc :: string
  char_notes :: string
  char_created_at :: string

record location =
  loc_id :: string
  loc_name :: string
  brief :: string
  evolution :: string
  loc_created_at :: string

record lore_entry =
  lore_id :: string
  lore_title :: string
  summary :: string
  lore_created_at :: string

record master_codex =
  master_characters :: "character list"
  master_locations :: "location list"
  master_lore :: "lore_entry list"

record series_info =
  series_title :: string
  genre :: string
  series_logline :: string
  planned_books :: "int option"
  interconnection_style :: string
  protagonist_overall_arc :: string
  updated_at :: string

record timeline_event =
  tl_when :: string
  tl_desc :: string
  tl_book_id :: "string option"

record document =
  meta_created_at :: string
  series :: "series_info option"
  books :: "book list"
  master :: master_codex
  timeline :: "timeline_event list"

definition default_document :: "string \<Rightarrow> document" where
  \<comment> \<open>the structure \<^verbatim>\<open>load_data\<close> builds when there is no file; \<^verbatim>\<open>stamp\<close> is the
      clock's \<^verbatim>\<open>datetime.utcnow().isoformat()\<close>\<close>
  "default_document stamp =
     \<lparr>meta_created_at = stamp, series = None, books = [],
      master = \<lparr>master_characters = [], master_locations = [], master_lore = []\<rparr>,
      timeline = []\<rparr>"

definition pop :: "nat \<Rightarrow> 'a list \<Rightarrow> 'a list" where
  \<comment> \<open>the list after \<^verbatim>\<open>xs.pop(i)\<close>, for an index in range\<close>
  "pop i xs = take i xs @ drop (Suc i) xs"

subsection \<open>Books\<close>

text \<open>
  In the handlers below \<^verbatim>\<open>ts\<close> is the clock's \<^verbatim>\<open>int(datetime.utcnow().timestamp())\<close> and
  \<^verbatim>\<open>stamp\<close> its \<^verbatim>\<open>datetime.utcnow().isoformat()\<close>; the other arguments are the lines
  typed at the prompts, in the order of the prompts.
\<close>

definition optional_number :: "string \<Rightarrow> error + int option" where
  \<comment> \<open>\<^verbatim>\<open>int(s) if s.isdigit() else None\<close>\<close>
  "optional_number s =
     (if isdigit s then (case py_int s of None \<Rightarrow> Inl ValueError | Some n \<Rightarrow> Inr (Some n))
      else Inr None)"

definition create_book ::
  "document \<Rightarrow> string \<Rightarrow> string \<Rightarrow> string \<Rightarrow> string \<Rightarrow> int \<Rightarrow> string \<Rightarrow> error + document" where
  "create_book data title_in number_in brief_in length_in ts stamp =
     (case optional_number (strip number_in) of
        Inl e \<Rightarrow> Inl e
      | Inr num \<Rightarrow>
         (case optional_number (strip length_in) of
            Inl e \<Rightarrow> Inl e
          | Inr len \<Rightarrow>
              Inr (data\<lparr>books := books data @
                [\<lparr>book_id = ''book_'' @ str_nat (length (books data) + 1) @ ''_'' @ str_int ts,
                  title = strip title_in, number = num, logline = strip brief_in,
                  planned_length = len, plot_outline = [], characters = [],
                  book_char_profiles = [], book_timeline = [], themes = [],
                  book_created_at = stamp\<rparr>]\<rparr>)))"


subsection \<open>The master codex\<close>

definition create_master_character ::
  "document \<Rightarrow> string \<Rightarrow> string \<Rightarrow> string \<Rightarrow> string \<Rightarrow> string \<Rightarrow> int \<Rightarrow> string \<Rightarrow> document" where
  "create_master_character data name_in role_in personality_in arc_in notes_in ts stamp =
     (let cs = master_characters (master data);
          cid = ''char_'' @ str_nat (length cs + 1) @ ''_'' @ str_int ts;
          c = \<lparr>char_id = cid, name = strip name_in, role = strip role_in,
               personality = strip personality_in,
               personality_analysis = analyze_personality_text (strip personality_in),
               series_arc = strip arc_in, char_notes = strip notes_in,
               char_created_at = stamp\<rparr>
      in data\<lparr>master := (master data)\<lparr>master_characters := cs @ [c]\<rparr>\<rparr>)"

definition find_master_character :: "document \<Rightarrow> string \<Rightarrow> character option" where
  "find_master_character data cid = find (\<lambda>c. char_id c = cid) (master_characters (master data))"

definition remove_references :: "string \<Rightarrow> book \<Rightarrow> book" where
  \<comment> \<open>the body of the loop over the books: \<^verbatim>\<open>list.remove\<close> takes out the first occurrence\<close>
  "remove_references cid b =
     (if cid \<in> set (characters b)
      then b\<lparr>characters := remove1 cid (characters b),
             book_char_profiles := AList.delete cid (book_char_profiles b)\<rparr>
      else b)"

definition delete_character_at :: "document \<Rightarrow> nat \<Rightarrow> document" where
  \<comment> \<open>what option 4 of the master characters menu does once index \<^verbatim>\<open>idx\<close> is chosen\<close>
  "delete_character_at data idx =
     (let c = master_characters (master data) ! idx in
      data\<lparr>master := (master data)\<lparr>master_characters := pop idx (master_characters (master data))\<rparr>,
           books := map (remove_references (char_id c)) (books data)\<rparr>)"

definition delete_master_character :: "document \<Rightarrow> string \<Rightarrow> document" where
  "delete_master_character data line =
     (case choose_from_list
             (map (\<lambda>c. name c @ '' ('' @ role c @ '')'') (master_characters (master data))) line of
        None \<Rightarrow> data
      | Some idx \<Rightarrow> delete_character_at data idx)"

definition create_location ::
  "document \<Rightarrow> string \<Rightarrow> string \<Rightarrow> string \<Rightarrow> int \<Rightarrow> string \<Rightarrow> document" where
  "create_location data name_in brief_in evolution_in ts stamp =
     (let ls = master_locations (master data);
          lid = ''loc_'' @ str_nat (length ls + 1) @ ''_'' @ str_int ts
      in data\<lparr>master := (master data)\<lparr>master_locations := ls @
           [\<lparr>loc_id = lid, loc_name = strip name_in, brief = strip brief_in,
             evolution = strip evolution_in, loc_created_at = stamp\<rparr>]\<rparr>\<rparr>)"

definition delete_location :: "document \<Rightarrow> string \<Rightarrow> document" where
  "delete_location data line =
     (case choose_from_list (map loc_name (master_locations (master data))) line of
        None \<Rightarrow> data
      | Some idx \<Rightarrow>
          data\<lparr>master := (master data)\<lparr>master_locations := pop idx (master_locations (master data))\<rparr>\<rparr>)"

definition create_lore :: "document \<Rightarrow> string \<Rightarrow> string \<Rightarrow> int \<Rightarrow> string \<Rightarrow> document" where
  "create_lore data title_in summary_in ts stamp =
     (let ls = master_lore (master data);
          lid = ''lore_'' @ str_nat (length ls + 1) @ ''_'' @ str_int ts
      in data\<lparr>master := (master data)\<lparr>master_lore := ls @
           [\<lparr>lore_id = lid, lore_title = strip title_in, summary = strip summary_in,
             lore_created_at = stamp\<rparr>]\<rparr>\<rparr>)"

definition delete_lore :: "document \<Rightarrow> string \<Rightarrow> document" where
  "delete_lore data line =
     (case choose_from_list (map lore_title (master_lore (master data))) line of
        None \<Rightarrow> data
      | Some idx \<Rightarrow>
          data\<lparr>master := (master data)\<lparr>master_lore := pop idx (master_lore (master data))\<rparr>\<rparr>)"

subsection \<open>The characters of a book\<close>

text \<open>
  \<^verbatim>\<open>manage_book_characters\<close> works on a book that is an element of the document's list
  of books; \<^verbatim>\<open>bi\<close> is its position there.
\<close>

definition add_master_character_to_book :: "document \<Rightarrow> nat \<Rightarrow> string \<Rightarrow> document" where
  \<comment> \<open>option 2: add a master character to this book\<close>
  "add_master_character_to_book data bi line =
     (case choose_from_list (map name (master_characters (master data))) line of
        None \<Rightarrow> data
      | Some idx \<Rightarrow>
          let cid = char_id (master_characters (master data) ! idx);
              b = books data ! bi
          in if cid \<notin> set (characters b)
             then data\<lparr>books := (books data)[bi := b\<lparr>characters := characters b @ [cid],
                    book_char_profiles :=
                      (case map_of (book_char_profiles b) cid of
                         None \<Rightarrow> book_char_profiles b @ [(cid, \<lparr>role_in_book = [], profile_notes = []\<rparr>)]
                       | Some p \<Rightarrow> book_char_profiles b)\<rparr>]\<rparr>
             else data)"

definition create_and_add_character ::
  "document \<Rightarrow> nat \<Rightarrow> string \<Rightarrow> string \<Rightarrow> string \<Rightarrow> string \<Rightarrow> string \<Rightarrow> int \<Rightarrow> string \<Rightarrow> document" where
  \<comment> \<open>option 3, \<^verbatim>\<open>Create new master character and add it\<close>: the branch calls
      \<^verbatim>\<open>create_master_character(data)\<close> and \<^verbatim>\<open>save_data(data)\<close>, and nothing else\<close>
  "create_and_add_character data bi name_in role_in personality_in arc_in notes_in ts stamp =
     create_master_character data name_in role_in personality_in arc_in notes_in ts stamp"

subsection \<open>Series analysis\<close>

datatype issue =
  Missing_character string string
    \<comment> \<open>\<^verbatim>\<open>Book '{title}' references missing master character id {cid}\<close>\<close>
| Shared_name string "string list"
    \<comment> \<open>\<^verbatim>\<open>Multiple master characters share name '{name}' with ids {ids} ...\<close>\<close>

definition missing_references :: "document \<Rightarrow> issue list" where
  "missing_references data =
     concat (map (\<lambda>b. map (Missing_character (title b))
                          (filter (\<lambda>cid. cid \<notin> set (map char_id (master_characters (master data))))
                                  (characters b)))
                 (books data))"

definition add_name :: "character \<Rightarrow> (string \<times> string list) list \<Rightarrow> (string \<times> string list) list" where
  \<comment> \<open>\<^verbatim>\<open>name_to_ids.setdefault(c["name"].lower(), []).append(c["id"])\<close>; a dictionary keeps
      its keys in the order of their first insertion\<close>
  "add_name c m =
     (let k = lower (name c) in
      AList.update k ((case map_of m k of None \<Rightarrow> [] | Some ids \<Rightarrow> ids) @ [char_id c]) m)"

definition name_to_ids :: "document \<Rightarrow> (string \<times> string list) list" where
  "name_to_ids data = fold add_name (master_characters (master data)) []"

definition shared_names :: "document \<Rightarrow> issue list" where
  "shared_names data =
     map (\<lambda>(n, ids). Shared_name n ids) (filter (\<lambda>(n, ids). length ids > 1) (name_to_ids data))"

definition continuity_check :: "document \<Rightarrow> issue list" where
  \<comment> \<open>the list \<^verbatim>\<open>issues\<close> that the function prints\<close>
  "continuity_check data = missing_references data @ shared_names data"

datatype out =
  Print string
    \<comment> \<open>\<^verbatim>\<open>print(text)\<close>\<close>
| Pretty string nat
    \<comment> \<open>\<^verbatim>\<open>pretty(text, indent)\<close>: the text, wrapped to 80 columns\<close>

definition count_theme :: "string \<Rightarrow> (string \<times> nat) list \<Rightarrow> (string \<times> nat) list" where
  \<comment> \<open>\<^verbatim>\<open>theme_counts[t.lower()] = theme_counts.get(t.lower(), 0) + 1\<close>\<close>
  "count_theme t m =
     AList.update (lower t) ((case map_of m (lower t) of None \<Rightarrow> 0 | Some n \<Rightarrow> n) + 1) m"

definition theme_counts :: "document \<Rightarrow> (string \<times> nat) list" where
  "theme_counts data = fold (\<lambda>b m. fold count_theme (themes b) m) (books data) []"

definition missing_themes :: "document \<Rightarrow> string list" where
  \<comment> \<open>the list \<^verbatim>\<open>missing\<close>; \<^verbatim>\<open>cnt < total_books / 2\<close> compares an integer with half an
      integer, which is \<^verbatim>\<open>2 * cnt < total_books\<close>\<close>
  "missing_themes data =
     (let total_books = max 1 (length (books data)) in
      map fst (filter (\<lambda>(t, cnt). 2 * cnt < total_books) (theme_counts data)))"

definition no_themes_message :: string where
  "no_themes_message = ''No themes recorded across books. Consider tagging themes for each book.''"

definition weak_themes_message :: string where
  "weak_themes_message =
     ''Some themes are not strong across the series; consider reinforcing themes that define your series identity.''"

definition consistent_themes_message :: string where
  "consistent_themes_message =
     CHR 0x0A # ''Observations: Themes appear consistently across books (as far as recorded).''"

definition thematic_cohesion :: "document \<Rightarrow> out list" where
  "thematic_cohesion data =
     Print (CHR 0x0A # ''--- Thematic Cohesion Analysis ---'') #
     (if theme_counts data = [] then [Print no_themes_message]
      else
        Print ''Themes and coverage across books:'' #
        map (\<lambda>(t, cnt). Print (''- '' @ t @ '': appears in '' @ str_nat cnt @ '' book(s)''))
            (theme_counts data) @
        (if missing_themes data \<noteq> []
         then [Print (CHR 0x0A # ''Observations:''), Pretty weak_themes_message 2]
         else [Print consistent_themes_message]))"

subsection \<open>The oracle's advice\<close>

definition oracle_banner :: "out list" where
  "oracle_banner =
     [Print (CHR 0x0A # ''--- The Oracle's Advice ---''),
      Print ''Type a focused query like:'',
      Print (''  - 'What conflicts could arise between [Character A] and [Character B]?'' @ [CHR 0x27]),
      Print (''  - 'How can I escalate stakes in Book 2?'' @ [CHR 0x27]),
      Print ''Or type 'examples' to see quick prompts.'']"

definition conflict_template :: "string \<Rightarrow> string \<Rightarrow> out list" where
  "conflict_template a b =
     [Print (CHR 0x0A # ''Possible conflicts between '' @ a @ '' and '' @ b @ '':''),
      Pretty (''1) Clashing motivations: '' @ a @ '' wants X while '' @ b
              @ '' needs Y, forcing them to collide.'') 2,
      Pretty ''2) Past secret revealed: one holds a secret that undermines trust.'' 2,
      Pretty ''3) Resource/goal competition: both pursue the same scarce resource or position.'' 2,
      Pretty ''Consider aligning conflict to your series themes for stronger cohesion.'' 2]"

definition no_two_names_message :: string where
  "no_two_names_message =
     ''I couldn't identify two character names from the master codex in your query. Try writing both character names exactly as they are in Master Characters.''"

definition escalation_advice :: "out list" where
  "escalation_advice =
     [Print (CHR 0x0A # ''Ways to escalate stakes:''),
      Pretty ''- Personal stakes: threaten what the protagonist values most (relationships, reputation, self-image).'' 2,
      Pretty ''- Societal stakes: push the world toward a tipping point (war, famine, collapse).'' 2,
      Pretty ''- Moral stakes: force character to choose between two bad options, revealing values.'' 2,
      Pretty ''- Reveal a costly secret that changes goals and alliances.'' 2]"

definition general_advice :: "out list" where
  "general_advice =
     [Print (CHR 0x0A # ''General advice:''),
      Pretty ''Use contrasts: pair proactive characters with reactive ones. Use consequences: each choice should change the world irreversibly. If unsure, describe a scene and I can offer targeted edits.'' 2]"

definition mentioned_names :: "document \<Rightarrow> string \<Rightarrow> string list" where
  \<comment> \<open>the list \<^verbatim>\<open>mentioned\<close>, for the lower-cased query\<close>
  "mentioned_names data qlower =
     filter (\<lambda>n. str_in (lower n) qlower) (map name (master_characters (master data)))"

definition oracles_advice :: "document \<Rightarrow> string \<Rightarrow> out list" where
  "oracles_advice data line =
     oracle_banner @
     (let q = strip line in
      if q = [] then [Print ''No query entered.'']
      else
        let qlower = lower q in
        if str_in ''conflict'' qlower \<and> str_in ''between'' qlower then
          (let mentioned = mentioned_names data qlower in
           if length mentioned \<ge> 2 then conflict_template (mentioned ! 0) (mentioned ! 1)
           else [Print no_two_names_message])
        else if str_in ''escalate'' qlower \<or> str_in ''escalation'' qlower \<or> str_in ''stakes'' qlower
        then escalation_advice
        else general_advice)"

subsection \<open>Persistence\<close>

text \<open>
  \<^verbatim>\<open>save_data\<close> writes the document with \<^verbatim>\<open>json.dump(data, f, indent=2, ensure_ascii=False)\<close>
  and \<^verbatim>\<open>load_data\<close> reads it back with \<^verbatim>\<open>json.load\<close>. Both are functions of Python's
  library; what they do on the values a document is made of (\<^verbatim>\<open>None\<close>, integers, strings,
  lists and dictionaries with string keys) is written out here after the library's encoder
  and decoder. A dictionary is an association list in the order of insertion; a Python
  dictionary has no key twice. The decoder answers \<^verbatim>\<open>Outside_model\<close> on texts whose value
  is not of this kind (a float, a \<^verbatim>\<open>\u\<close> escape above \<^verbatim>\<open>00ff\<close>). Its recursion is
  bounded by a counter that starts above the length of the text. A file holds the text
  that was written to it; its encoding in bytes is not modelled.
\<close>

datatype json =
  JNull
| JBool bool
| JInt int
| JStr string
| JList "json list"
| JDict "(string \<times> json) list"





















definition optional_int_value :: "int option \<Rightarrow> json" where
  "optional_int_value x = (case x of None \<Rightarrow> JNull | Some i \<Rightarrow> JInt i)"

definition optional_str_value :: "string option \<Rightarrow> json" where
  "optional_str_value x = (case x of None \<Rightarrow> JNull | Some s \<Rightarrow> JStr s)"

definition profile_value :: "profile \<Rightarrow> json" where
  "profile_value p =
     JDict [(''role_in_book'', JStr (role_in_book p)), (''notes'', JStr (profile_notes p))]"

definition event_value :: "event \<Rightarrow> json" where
  "event_value e = JDict [(''when'', JStr (ev_when e)), (''desc'', JStr (ev_desc e))]"

definition book_value :: "book \<Rightarrow> json" where
  "book_value b =
     JDict [(''id'', JStr (book_id b)), (''title'', JStr (title b)),
            (''number'', optional_int_value (number b)), (''logline'', JStr (logline b)),
            (''planned_length'', optional_int_value (planned_length b)),
            (''plot_outline'', JList (map JStr (plot_outline b))),
            (''characters'', JList (map JStr (characters b))),
            (''book_char_profiles'',
               JDict (map (\<lambda>(cid, p). (cid, profile_value p)) (book_char_profiles b))),
            (''timeline'', JList (map event_value (book_timeline b))),
            (''themes'', JList (map JStr (themes b))),
            (''created_at'', JStr (book_created_at b))]"

definition character_value :: "character \<Rightarrow> json" where
  "character_value c =
     JDict [(''id'', JStr (char_id c)), (''name'', JStr (name c)), (''role'', JStr (role c)),
            (''personality'', JStr (personality c)),
            (''personality_analysis'', JStr (personality_analysis c)),
            (''series_arc'', JStr (series_arc c)), (''notes'', JStr (char_notes c)),
            (''created_at'', JStr (char_created_at c))]"

definition location_value :: "location \<Rightarrow> json" where
  "location_value l =
     JDict [(''id'', JStr (loc_id l)), (''name'', JStr (loc_name l)), (''brief'', JStr (brief l)),
            (''evolution'', JStr (evolution l)), (''created_at'', JStr (loc_created_at l))]"

definition lore_value :: "lore_entry \<Rightarrow> json" where
  "lore_value l =
     JDict [(''id'', JStr (lore_id l)), (''title'', JStr (lore_title l)),
            (''summary'', JStr (summary l)), (''created_at'', JStr (lore_created_at l))]"

definition series_value :: "series_info \<Rightarrow> json" where
  "series_value s =
     JDict [(''title'', JStr (series_title s)), (''genre'', JStr (genre s)),
            (''logline'', JStr (series_logline s)),
            (''planned_books'', optional_int_value (planned_books s)),
            (''interconnection_style'', JStr (interconnection_style s)),
            (''protagonist_overall_arc'', JStr (protagonist_overall_arc s)),
            (''updated_at'', JStr (updated_at s))]"

definition timeline_event_value :: "timeline_event \<Rightarrow> json" where
  "timeline_event_value e =
     JDict [(''when'', JStr (tl_when e)), (''desc'', JStr (tl_desc e)),
            (''book_id'', optional_str_value (tl_book_id e))]"




subsection \<open>Notions used in the statements\<close>

definition mentions :: "string \<Rightarrow> character \<Rightarrow> bool" where
  \<comment> \<open>the character's name occurs in the query, letter case aside\<close>
  "mentions q c = sublist (lower (name c)) (lower q)"

definition theme_occurrences :: "document \<Rightarrow> string \<Rightarrow> nat" where
  \<comment> \<open>how often a lower-cased theme occurs in the theme lists of all books\<close>
  "theme_occurrences data t = length (filter (\<lambda>x. lower x = t) (concat (map themes (books data))))"

fun wf_json :: "json \<Rightarrow> bool" where
  "wf_json (JList xs) = list_all wf_json xs"
| "wf_json (JDict kvs) = (distinct (map fst kvs) \<and> list_all (\<lambda>(k, v). wf_json v) kvs)"
| "wf_json v = True"




subsection \<open>Sample documents and runs\<close>

definition example_stamp :: string where
  "example_stamp = ''2024-01-01T00:00:00''"

definition example_book :: book where
  "example_book =
     \<lparr>book_id = ''book_1_100'', title = ''The Start'', number = Some 1, logline = ''A beginning.'',
      planned_length = None, plot_outline = [], characters = [], book_char_profiles = [],
      book_timeline = [], themes = [], book_created_at = example_stamp\<rparr>"

definition create_and_add_run :: document where
  \<comment> \<open>a first run of the program: a book is created, then option 3 of its characters menu
      is used\<close>
  "create_and_add_run =
     (case create_book (default_document example_stamp) ''The Start'' ''1'' [] [] 100 example_stamp of
        Inl e \<Rightarrow> default_document example_stamp
      | Inr d \<Rightarrow> create_and_add_character d 0 ''Ava'' ''Hero'' [] [] [] 101 example_stamp)"

definition character_reuse_run :: document where
  \<comment> \<open>two characters are created, the first is deleted and a third is created, all within
      the clock second 100\<close>
  "character_reuse_run =
     (let d1 = create_master_character (default_document example_stamp)
                 ''Ava'' ''Hero'' [] [] [] 100 example_stamp;
          d2 = create_master_character d1 ''Kade'' ''Rival'' [] [] [] 100 example_stamp;
          d3 = delete_master_character d2 ''1''
      in create_master_character d3 ''Mira'' ''Mentor'' [] [] [] 100 example_stamp)"

definition location_reuse_run :: document where
  "location_reuse_run =
     (let d1 = create_location (default_document example_stamp) ''Harbour'' [] [] 100 example_stamp;
          d2 = create_location d1 ''Keep'' [] [] 100 example_stamp;
          d3 = delete_location d2 ''1''
      in create_location d3 ''Marsh'' [] [] 100 example_stamp)"

definition lore_reuse_run :: document where
  "lore_reuse_run =
     (let d1 = create_lore (default_document example_stamp) ''Tides'' [] 100 example_stamp;
          d2 = create_lore d1 ''Oaths'' [] 100 example_stamp;
          d3 = delete_lore d2 ''1''
      in create_lore d3 ''Names'' [] 100 example_stamp)"

definition cascade_run :: document where
  \<comment> \<open>a character and a book are created and the character is added to the book\<close>
  "cascade_run =
     (let d1 = create_master_character (default_document example_stamp)
                 ''Ava'' ''Hero'' ''kind'' [] [] 100 example_stamp
      in case create_book d1 ''The Start'' ''1'' [] [] 101 example_stamp of
           Inl e \<Rightarrow> d1
         | Inr d2 \<Rightarrow> add_master_character_to_book d2 0 ''1'')"

definition repeated_reference :: document where
  \<comment> \<open>a document whose only book lists the id of its only character twice\<close>
  "repeated_reference =
     (default_document example_stamp)
       \<lparr>books :=
          [\<lparr>book_id = ''book_1_100'', title = ''The Start'', number = Some 1, logline = [],
            planned_length = None, plot_outline = [],
            characters = [''char_1_100'', ''char_1_100''],
            book_char_profiles = [(''char_1_100'', \<lparr>role_in_book = [], profile_notes = []\<rparr>)],
            book_timeline = [], themes = [], book_created_at = example_stamp\<rparr>],
        master :=
          \<lparr>master_characters =
             [\<lparr>char_id = ''char_1_100'', name = ''Ava'', role = ''Hero'', personality = [],
               personality_analysis = no_signal_message, series_arc = [], char_notes = [],
               char_created_at = example_stamp\<rparr>],
           master_locations = [], master_lore = []\<rparr>\<rparr>"

definition case_variant_names :: document where
  "case_variant_names =
     (let d1 = create_master_character (default_document example_stamp)
                 ''Rex'' ''Hero'' [] [] [] 100 example_stamp
      in create_master_character d1 ''rex'' ''Dog'' [] [] [] 101 example_stamp)"

definition same_name_twice :: document where
  "same_name_twice =
     (let d1 = create_master_character (default_document example_stamp)
                 ''Rex'' ''Hero'' [] [] [] 100 example_stamp
      in create_master_character d1 ''Rex'' ''Dog'' [] [] [] 101 example_stamp)"

definition ava_and_kade :: document where
  "ava_and_kade =
     (let d1 = create_master_character (default_document example_stamp)
                 ''Ava'' ''Hero'' [] [] [] 100 example_stamp
      in create_master_character d1 ''Kade'' ''Rival'' [] [] [] 101 example_stamp)"

definition four_books :: document where
  "four_books =
     (default_document example_stamp)
       \<lparr>books :=
          [example_book\<lparr>themes := [''Betrayal'', ''Hope'']\<rparr>,
           example_book\<lparr>title := ''The Middle'', themes := [''hope'']\<rparr>,
           example_book\<lparr>title := ''The Turn'', themes := [''HOPE'']\<rparr>,
           example_book\<lparr>title := ''The End'', themes := []\<rparr>]\<rparr>"

section \<open>Properties\<close>

subsection \<open>Text\<close>

lemma sublist_join: "x \<in> set xs \<Longrightarrow> sublist x (join sep xs)"
proof (induction sep xs rule: join.induct)
  case (3 sep a b ys)
  show ?case
  proof (cases "x = a")
    case True
    then show ?thesis by simp
  next
    case False
    with 3 have "sublist x (join sep (b # ys))" by simp
    then show ?thesis by (simp add: sublist_append)
  qed
qed simp_all

lemma str_in_lower: "lower k = k \<Longrightarrow> str_in k t \<Longrightarrow> str_in k (lower t)"
  unfolding str_in_def lower_def using map_mono_sublist[of k t lower_char] by simp

subsection \<open>Personality analysis\<close>

lemma analyze_contains:
  "s \<in> set (personality_traits (lower text)) \<Longrightarrow> str_in s (analyze_personality_text text)"
  unfolding analyze_personality_text_def Let_def str_in_def
  by (auto simp: sublist_join)

lemma conscientiousness_listed:
  "str_in ''organized'' t \<Longrightarrow> conscientiousness_sentence \<in> set (personality_traits t)"
  by (simp add: personality_traits_def)

lemma agreeableness_listed:
  "str_in ''agreeable'' t \<Longrightarrow> agreeableness_sentence \<in> set (personality_traits t)"
  by (simp add: personality_traits_def)

lemma low_agreeableness_listed:
  "str_in ''not agreeable'' t \<Longrightarrow> low_agreeableness_sentence \<in> set (personality_traits t)"
  by (simp add: personality_traits_def)

lemma lower_organized: "lower ''organized'' = ''organized''"
  by code_simp

text \<open>
  Claim C7. \<^const>\<open>analyze_personality_text\<close> is a function of its input text alone: the
  source reads nothing but its argument and the embedding has no other parameter, so two
  calls on the same text give the same string (even two texts that differ in letter case
  only do). Every text in which \<^verbatim>\<open>organized\<close> occurs yields an output in which the
  conscientiousness sentence occurs, whatever other keywords the text holds.
\<close>

theorem organized_gives_conscientiousness:
  "(lower text' = lower text \<longrightarrow> analyze_personality_text text' = analyze_personality_text text)
   \<and> (str_in ''organized'' text \<longrightarrow>
        str_in conscientiousness_sentence (analyze_personality_text text))"
proof (intro conjI impI)
  assume "lower text' = lower text"
  then show "analyze_personality_text text' = analyze_personality_text text"
    by (simp add: analyze_personality_text_def)
next
  assume "str_in ''organized'' text"
  then show "str_in conscientiousness_sentence (analyze_personality_text text)"
    by (intro analyze_contains conscientiousness_listed str_in_lower lower_organized)
qed

theorem organized_gives_conscientiousness_witness:
  "str_in ''organized'' ''Kind, open, very organized; not agreeable when anxious''
   \<and> str_in conscientiousness_sentence
        (analyze_personality_text ''Kind, open, very organized; not agreeable when anxious'')
   \<and> lower ''KIND, Open, Very Organized; not agreeable when anxious''
       = lower ''Kind, open, very organized; not agreeable when anxious''
   \<and> analyze_personality_text ''KIND, Open, Very Organized; not agreeable when anxious''
       = analyze_personality_text ''Kind, open, very organized; not agreeable when anxious''"
proof -
  have h: "str_in ''organized'' ''Kind, open, very organized; not agreeable when anxious''"
    by code_simp
  have l: "lower ''KIND, Open, Very Organized; not agreeable when anxious''
       = lower ''Kind, open, very organized; not agreeable when anxious''"
    by code_simp
  from h l organized_gives_conscientiousness
    [of "''KIND, Open, Very Organized; not agreeable when anxious''"
        "''Kind, open, very organized; not agreeable when anxious''"]
  show ?thesis by blast
qed

lemma agreeable_in_not_agreeable:
  assumes "str_in ''not agreeable'' t"
  shows "str_in ''agreeable'' t"
proof -
  have "sublist ''agreeable'' ''not agreeable''" by code_simp
  with assms show ?thesis unfolding str_in_def by (meson sublist_order.order_trans)
qed

text \<open>
  Claim C10. When the lower-cased input holds \<^verbatim>\<open>not agreeable\<close>, the output holds both
  the high-agreeableness and the low-agreeableness sentence: the tests are independent
  substring tests and \<^verbatim>\<open>agreeable\<close> occurs in \<^verbatim>\<open>not agreeable\<close>.
\<close>

theorem not_agreeable_gives_both:
  assumes "str_in ''not agreeable'' (lower text)"
  shows "str_in agreeableness_sentence (analyze_personality_text text)
       \<and> str_in low_agreeableness_sentence (analyze_personality_text text)"
  using assms
  by (simp add: analyze_contains agreeableness_listed low_agreeableness_listed
        agreeable_in_not_agreeable)

theorem not_agreeable_gives_both_witness:
  "str_in ''not agreeable'' (lower ''Bob is NOT Agreeable'')
   \<and> str_in agreeableness_sentence (analyze_personality_text ''Bob is NOT Agreeable'')
   \<and> str_in low_agreeableness_sentence (analyze_personality_text ''Bob is NOT Agreeable'')"
proof -
  have h: "str_in ''not agreeable'' (lower ''Bob is NOT Agreeable'')"
    by code_simp
  from h not_agreeable_gives_both [OF h] show ?thesis by simp
qed

subsection \<open>Creating master entries\<close>

lemma create_and_add_character_books:
  "books (create_and_add_character data bi name_in role_in personality_in arc_in notes_in ts stamp)
     = books data"
  by (simp add: create_and_add_character_def create_master_character_def Let_def)

text \<open>
  Claim C1. The claim says that option 3 of a book's characters menu creates a master
  character and then adds its id to the book. The branch only creates the character: in the
  run below the new character \<^verbatim>\<open>char_1_101\<close> is in the master collection, while the
  book's reference list is still empty and its profiles have no entry for the id. (By
  \<open>create_and_add_character_books\<close> the branch never changes any book.)
\<close>

theorem create_and_add_does_not_add:
  "map char_id (master_characters (master create_and_add_run)) = [''char_1_101'']
   \<and> length (books create_and_add_run) = 1
   \<and> characters (books create_and_add_run ! 0) = []
   \<and> map_of (book_char_profiles (books create_and_add_run ! 0)) ''char_1_101'' = None"
  by code_simp

text \<open>
  Claim C2. The claim says that a created entry's id differs from every id already in its
  collection, also after deletions. An id is made of the collection's length plus one and
  the clock's second, so deleting an entry and creating another within the same second
  gives the id of the entry that took the deleted one's place: each run below ends with two
  entries of the same id.
\<close>

theorem create_reuses_id_after_deletion:
  "map char_id (master_characters (master character_reuse_run)) = [''char_2_100'', ''char_2_100'']
   \<and> map name (master_characters (master character_reuse_run)) = [''Kade'', ''Mira'']
   \<and> map loc_id (master_locations (master location_reuse_run)) = [''loc_2_100'', ''loc_2_100'']
   \<and> map loc_name (master_locations (master location_reuse_run)) = [''Keep'', ''Marsh'']
   \<and> map lore_id (master_lore (master lore_reuse_run)) = [''lore_2_100'', ''lore_2_100'']
   \<and> map lore_title (master_lore (master lore_reuse_run)) = [''Oaths'', ''Names'']"
  by code_simp

subsection \<open>Deleting a master character\<close>

lemma choose_from_list_range: "choose_from_list items line = Some idx \<Longrightarrow> idx < length items"
  by (auto simp: choose_from_list_def Let_def split: if_splits option.splits)

lemma remove_references_absent: "cid \<notin> set (characters b) \<Longrightarrow> remove_references cid b = b"
  by (simp add: remove_references_def)

lemma remove1_distinct_filter:
  assumes "distinct xs"
  shows "remove1 x xs = filter (\<lambda>y. y \<noteq> x) xs"
proof -
  have "(\<lambda>y. x \<noteq> y) = (\<lambda>y. y \<noteq> x)" by auto
  with assms show ?thesis
    by (simp add: distinct_remove1_removeAll removeAll_filter_not_eq)
qed

lemma remove_references_characters:
  "characters (remove_references cid b) = filter (\<lambda>x. x \<noteq> cid) (characters b)"
  if "distinct (characters b)"
proof (cases "cid \<in> set (characters b)")
  case True
  then show ?thesis using that by (simp add: remove_references_def remove1_distinct_filter)
next
  case False
  then have "filter (\<lambda>x. x \<noteq> cid) (characters b) = characters b"
    by (auto simp: filter_id_conv)
  with False show ?thesis by (simp add: remove_references_def)
qed

lemma remove_references_profiles:
  "map_of (book_char_profiles (remove_references cid b)) x =
     (if x = cid \<and> cid \<in> set (characters b) then None else map_of (book_char_profiles b) x)"
  by (simp add: remove_references_def AList.delete_conv)

lemma remove_references_frame:
  "remove_references cid b =
     b\<lparr>characters := characters (remove_references cid b),
       book_char_profiles := book_char_profiles (remove_references cid b)\<rparr>"
  by (simp add: remove_references_def)

lemma delete_character_at_books:
  "books (delete_character_at data idx) =
     map (remove_references (char_id (master_characters (master data) ! idx))) (books data)"
  by (simp add: delete_character_at_def Let_def)

lemma delete_master_character_chosen:
  "choose_from_list (map (\<lambda>c. name c @ '' ('' @ role c @ '')'') (master_characters (master data))) line
     = Some idx \<Longrightarrow>
   delete_master_character data line = delete_character_at data idx
   \<and> idx < length (master_characters (master data))"
  using choose_from_list_range by (fastforce simp: delete_master_character_def)

text \<open>
  Claim C3, as stated, fails on a document in which a book lists the id of the deleted
  character twice: \<^verbatim>\<open>list.remove\<close> takes out the first occurrence only, so the id is
  still in the book's reference list after the deletion.
\<close>

theorem repeated_reference_counterexample:
  "map char_id (master_characters (master repeated_reference)) = [''char_1_100'']
   \<and> characters (books repeated_reference ! 0) = [''char_1_100'', ''char_1_100'']
   \<and> characters (books (delete_master_character repeated_reference ''1'') ! 0) = [''char_1_100'']"
  by code_simp

text \<open>
  Claim C3, amended. In a document in which no book's reference list holds an id twice,
  deleting the master character at a position \<^verbatim>\<open>idx\<close> of the collection leaves the other
  master characters as they were and in their order, and changes nothing in the document
  but the master characters and the books. In every book the id is no longer in the
  reference list, which otherwise keeps its ids and their order; a book that referenced the
  id has no profile entry for it any more; the profile entries of all other ids are as
  before; all other fields of the book are as before; and a book that did not reference the
  id is unchanged.
\<close>

theorem delete_character_cascade:
  assumes "idx < length (master_characters (master data))"
    and "\<forall>b\<in>set (books data). distinct (characters b)"
  shows "let cid = char_id (master_characters (master data) ! idx);
             data' = delete_character_at data idx
         in master_characters (master data') = pop idx (master_characters (master data))
          \<and> data' = data\<lparr>master := (master data)\<lparr>master_characters := master_characters (master data')\<rparr>,
                          books := books data'\<rparr>
          \<and> length (books data') = length (books data)
          \<and> (\<forall>i<length (books data).
                let b = books data ! i; b' = books data' ! i
                in cid \<notin> set (characters b')
                 \<and> (cid \<in> set (characters b) \<longrightarrow> map_of (book_char_profiles b') cid = None)
                 \<and> (cid \<notin> set (characters b) \<longrightarrow> b' = b)
                 \<and> characters b' = filter (\<lambda>x. x \<noteq> cid) (characters b)
                 \<and> (\<forall>x. x \<noteq> cid \<longrightarrow> map_of (book_char_profiles b') x = map_of (book_char_profiles b) x)
                 \<and> b' = b\<lparr>characters := characters b', book_char_profiles := book_char_profiles b'\<rparr>)"
proof -
  define cid where "cid = char_id (master_characters (master data) ! idx)"
  define data' where "data' = delete_character_at data idx"
  have bs: "books data' = map (remove_references cid) (books data)"
    by (simp add: data'_def cid_def delete_character_at_books)
  have m: "master_characters (master data') = pop idx (master_characters (master data))"
    by (simp add: data'_def delete_character_at_def Let_def)
  have fr: "data' = data\<lparr>master := (master data)\<lparr>master_characters := master_characters (master data')\<rparr>,
                          books := books data'\<rparr>"
    by (simp add: data'_def delete_character_at_def Let_def)
  have each: "cid \<notin> set (characters b')
       \<and> (cid \<in> set (characters b) \<longrightarrow> map_of (book_char_profiles b') cid = None)
       \<and> (cid \<notin> set (characters b) \<longrightarrow> b' = b)
       \<and> characters b' = filter (\<lambda>x. x \<noteq> cid) (characters b)
       \<and> (\<forall>x. x \<noteq> cid \<longrightarrow> map_of (book_char_profiles b') x = map_of (book_char_profiles b) x)
       \<and> b' = b\<lparr>characters := characters b', book_char_profiles := book_char_profiles b'\<rparr>"
    if i: "i < length (books data)" and b: "b = books data ! i" and b': "b' = books data' ! i"
    for i b b'
  proof -
    from i b have "b \<in> set (books data)" by simp
    with assms(2) have d: "distinct (characters b)" by blast
    from i b b' bs have r: "b' = remove_references cid b" by simp
    have c: "characters b' = filter (\<lambda>x. x \<noteq> cid) (characters b)"
      unfolding r using d by (rule remove_references_characters)
    then have "cid \<notin> set (characters b')" by simp
    moreover have "cid \<in> set (characters b) \<longrightarrow> map_of (book_char_profiles b') cid = None"
      unfolding r by (simp add: remove_references_profiles)
    moreover have "cid \<notin> set (characters b) \<longrightarrow> b' = b"
      unfolding r by (simp add: remove_references_absent)
    moreover have "\<forall>x. x \<noteq> cid \<longrightarrow> map_of (book_char_profiles b') x = map_of (book_char_profiles b) x"
      unfolding r by (simp add: remove_references_profiles)
    moreover have "b' = b\<lparr>characters := characters b', book_char_profiles := book_char_profiles b'\<rparr>"
      unfolding r by (rule remove_references_frame)
    ultimately show ?thesis using c by blast
  qed
  have "length (books data') = length (books data)" by (simp add: bs)
  with m fr each show ?thesis
    unfolding Let_def cid_def [symmetric] data'_def [symmetric] by blast
qed

theorem delete_character_cascade_witness:
  "0 < length (master_characters (master cascade_run))
   \<and> list_all (\<lambda>b. distinct (characters b)) (books cascade_run)
   \<and> characters (books cascade_run ! 0) = [''char_1_100'']
   \<and> characters (books (delete_character_at cascade_run 0) ! 0) = []"
proof -
  have h1: "0 < length (master_characters (master cascade_run))" by code_simp
  have h2: "\<forall>b\<in>set (books cascade_run). distinct (characters b)" by code_simp
  have c: "characters (books cascade_run ! 0) = [''char_1_100'']" by code_simp
  have i: "char_id (master_characters (master cascade_run) ! 0) = ''char_1_100''" by code_simp
  have l: "0 < length (books cascade_run)" by code_simp
  from delete_character_cascade [OF h1 h2] l
  have "characters (books (delete_character_at cascade_run 0) ! 0)
        = filter (\<lambda>x. x \<noteq> char_id (master_characters (master cascade_run) ! 0))
            (characters (books cascade_run ! 0))"
    unfolding Let_def by blast
  with c i have "characters (books (delete_character_at cascade_run 0) ! 0) = []" by simp
  with h1 h2 c show ?thesis by (simp add: list_all_iff)
qed

subsection \<open>Editing a book's basic information\<close>











subsection \<open>Continuity check\<close>

lemma map_of_add_name:
  "map_of (add_name c m) k =
     (if k = lower (name c)
      then Some ((case map_of m k of None \<Rightarrow> [] | Some ids \<Rightarrow> ids) @ [char_id c])
      else map_of m k)"
  by (simp add: add_name_def Let_def update_conv)

lemma map_of_fold_add_name:
  "map_of (fold add_name cs m) k =
     (if filter (\<lambda>c. lower (name c) = k) cs = [] then map_of m k
      else Some ((case map_of m k of None \<Rightarrow> [] | Some ids \<Rightarrow> ids)
                 @ map char_id (filter (\<lambda>c. lower (name c) = k) cs)))"
proof (induction cs arbitrary: m)
  case Nil
  then show ?case by simp
next
  case (Cons c cs)
  show ?case
    by (simp add: Cons.IH map_of_add_name split: option.splits)
qed

lemma distinct_add_name: "distinct (map fst m) \<Longrightarrow> distinct (map fst (add_name c m))"
  by (simp add: add_name_def Let_def distinct_update)

lemma distinct_fold_add_name:
  "distinct (map fst m) \<Longrightarrow> distinct (map fst (fold add_name cs m))"
  by (induction cs arbitrary: m) (simp_all add: distinct_add_name)

lemma name_to_ids_entry:
  "(k, ids) \<in> set (name_to_ids data) \<longleftrightarrow>
     ids \<noteq> [] \<and> ids = map char_id (filter (\<lambda>c. lower (name c) = k) (master_characters (master data)))"
proof -
  have d: "distinct (map fst (name_to_ids data))"
    unfolding name_to_ids_def by (rule distinct_fold_add_name) simp
  have "(k, ids) \<in> set (name_to_ids data) \<longleftrightarrow> map_of (name_to_ids data) k = Some ids"
    using d by simp
  also have "\<dots> \<longleftrightarrow> ids \<noteq> [] \<and>
      ids = map char_id (filter (\<lambda>c. lower (name c) = k) (master_characters (master data)))"
    unfolding name_to_ids_def by (auto simp: map_of_fold_add_name)
  finally show ?thesis .
qed

lemma distinct_map_filter_length:
  "distinct (map f xs) \<longleftrightarrow> (\<forall>k. length (filter (\<lambda>x. f x = k) xs) \<le> 1)"
proof (induction xs)
  case Nil
  then show ?case by simp
next
  case (Cons x xs)
  have "(\<forall>k. length (filter (\<lambda>y. f y = k) (x # xs)) \<le> 1) \<longleftrightarrow>
        filter (\<lambda>y. f y = f x) xs = [] \<and> (\<forall>k. length (filter (\<lambda>y. f y = k) xs) \<le> 1)"
    (is "?L \<longleftrightarrow> ?A \<and> ?B")
  proof
    assume l: ?L
    from l [rule_format, of "f x"] have a: ?A by simp
    have ?B
    proof
      fix k
      from l [rule_format, of k] show "length (filter (\<lambda>y. f y = k) xs) \<le> 1"
        by (simp split: if_splits)
    qed
    with a show "?A \<and> ?B" ..
  next
    assume ab: "?A \<and> ?B"
    show ?L
    proof
      fix k
      from ab show "length (filter (\<lambda>y. f y = k) (x # xs)) \<le> 1"
        by (cases "f x = k") auto
    qed
  qed
  moreover have "filter (\<lambda>y. f y = f x) xs = [] \<longleftrightarrow> f x \<notin> f ` set xs"
  proof
    assume e: "filter (\<lambda>y. f y = f x) xs = []"
    show "f x \<notin> f ` set xs"
    proof
      assume "f x \<in> f ` set xs"
      then obtain y where "y \<in> set xs" "f y = f x" by auto
      then have "y \<in> set (filter (\<lambda>y. f y = f x) xs)" by simp
      with e show False by simp
    qed
  next
    assume "f x \<notin> f ` set xs"
    then have "\<forall>y\<in>set xs. f y \<noteq> f x" by (metis imageI)
    then show "filter (\<lambda>y. f y = f x) xs = []" by (simp add: filter_empty_conv)
  qed
  ultimately show ?case using Cons.IH by simp
qed

lemma shared_names_empty:
  "shared_names data = [] \<longleftrightarrow> distinct (map (\<lambda>c. lower (name c)) (master_characters (master data)))"
proof -
  have "shared_names data = [] \<longleftrightarrow> (\<forall>k ids. (k, ids) \<in> set (name_to_ids data) \<longrightarrow> length ids \<le> 1)"
    by (fastforce simp: shared_names_def filter_empty_conv not_less)
  also have "\<dots> \<longleftrightarrow> (\<forall>k. length (filter (\<lambda>c. lower (name c) = k) (master_characters (master data))) \<le> 1)"
    unfolding name_to_ids_entry
    by (metis length_map list.size(3) zero_le_one)
  finally show ?thesis by (simp add: distinct_map_filter_length)
qed

lemma missing_references_empty:
  "missing_references data = [] \<longleftrightarrow>
     (\<forall>b\<in>set (books data). \<forall>cid\<in>set (characters b).
        cid \<in> set (map char_id (master_characters (master data))))"
  unfolding missing_references_def by (auto simp: filter_empty_conv)

text \<open>
  Claim C4, as stated, fails when two master characters have names that differ only in
  letter case: the names are unique, no book references anything, and the check still
  reports the two characters as sharing a name, because it groups them by lower-cased name.
\<close>

theorem case_variant_names_counterexample:
  "map name (master_characters (master case_variant_names)) = [''Rex'', ''rex'']
   \<and> distinct (map name (master_characters (master case_variant_names)))
   \<and> books case_variant_names = []
   \<and> continuity_check case_variant_names = [Shared_name ''rex'' [''char_1_100'', ''char_2_101'']]"
  by code_simp

text \<open>
  Claim C4, amended. \<^const>\<open>continuity_check\<close> produces an empty issue list exactly when
  every character id referenced by a book is the id of a master character and the
  lower-cased names of the master characters are pairwise different.
\<close>

theorem continuity_check_empty:
  "continuity_check data = [] \<longleftrightarrow>
     (\<forall>b\<in>set (books data). \<forall>cid\<in>set (characters b).
        cid \<in> set (map char_id (master_characters (master data))))
     \<and> distinct (map (\<lambda>c. lower (name c)) (master_characters (master data)))"
  unfolding continuity_check_def
  using missing_references_empty shared_names_empty by simp

theorem continuity_check_empty_witness:
  "list_all (\<lambda>b. list_all (\<lambda>cid. cid \<in> set (map char_id (master_characters (master cascade_run))))
                           (characters b)) (books cascade_run)
   \<and> distinct (map (\<lambda>c. lower (name c)) (master_characters (master cascade_run)))
   \<and> books cascade_run \<noteq> []
   \<and> continuity_check cascade_run = []"
proof -
  have h1: "list_all (\<lambda>b. list_all (\<lambda>cid. cid \<in> set (map char_id (master_characters (master cascade_run))))
                           (characters b)) (books cascade_run)" by code_simp
  have h2: "distinct (map (\<lambda>c. lower (name c)) (master_characters (master cascade_run)))"
    by code_simp
  have h3: "books cascade_run \<noteq> []" by code_simp
  from h1 h2 continuity_check_empty [of cascade_run]
  have "continuity_check cascade_run = []" by (simp add: list_all_iff)
  with h1 h2 h3 show ?thesis by blast
qed

subsection \<open>The oracle's advice\<close>

lemma first_two_of_filter:
  assumes "2 \<le> length (filter P xs)"
  shows "\<exists>i j. i < j \<and> j < length xs \<and> P (xs ! i) \<and> P (xs ! j)
            \<and> (\<forall>k<j. k \<noteq> i \<longrightarrow> \<not> P (xs ! k))
            \<and> filter P xs ! 0 = xs ! i \<and> filter P xs ! 1 = xs ! j"
proof -
  from assms obtain a b rest where f: "filter P xs = a # b # rest"
    by (cases "filter P xs"; cases "tl (filter P xs)") auto
  then obtain us vs where xs: "xs = us @ a # vs" and us: "\<forall>u\<in>set us. \<not> P u" and a: "P a"
    and fv: "b # rest = filter P vs"
    unfolding filter_eq_Cons_iff by blast
  from fv [symmetric] obtain us' vs' where vs: "vs = us' @ b # vs'"
    and us': "\<forall>u\<in>set us'. \<not> P u" and b: "P b"
    unfolding filter_eq_Cons_iff by blast
  let ?i = "length us" and ?j = "length us + 1 + length us'"
  have xi: "xs ! ?i = a" by (simp add: xs)
  have xj: "xs ! ?j = b" by (simp add: xs vs nth_append)
  have between: "\<not> P (xs ! k)" if "k < ?j" "k \<noteq> ?i" for k
  proof (cases "k < ?i")
    case True
    then have "xs ! k \<in> set us" by (simp add: xs nth_append)
    with us show ?thesis by blast
  next
    case False
    with that have k: "?i < k" "k - ?i - 1 < length us'" by auto
    from k have s: "k - ?i = Suc (k - ?i - 1)" by simp
    from k have "xs ! k = (a # vs) ! (k - ?i)" by (simp add: xs nth_append)
    also have "\<dots> = vs ! (k - ?i - 1)" by (subst s) simp
    also from k have "\<dots> = us' ! (k - ?i - 1)" by (simp add: vs nth_append)
    finally have "xs ! k = us' ! (k - ?i - 1)" .
    with k have "xs ! k \<in> set us'" by simp
    with us' show ?thesis by blast
  qed
  have "?i < ?j" "?j < length xs" by (simp_all add: xs vs)
  moreover have "filter P xs ! 0 = xs ! ?i" "filter P xs ! 1 = xs ! ?j"
    using f xi xj by simp_all
  ultimately show ?thesis using a b xi xj between by blast
qed

lemma mentioned_names_filter:
  "mentioned_names data (lower q) = map name (filter (mentions q) (master_characters (master data)))"
  by (simp add: mentioned_names_def filter_map comp_def mentions_def [abs_def] str_in_def)

text \<open>
  Claim C6, as stated, fails when two master characters carry the same name: the query
  below mentions one name only, and the answer is the conflict template with that name in
  both places, not the message that two names could not be identified. The names are
  collected per master character and are not made distinct.
\<close>

theorem same_name_twice_counterexample:
  "remdups (mentioned_names same_name_twice (lower ''Any conflict between Rex and the others?'')) = [''Rex'']
   \<and> oracles_advice same_name_twice ''Any conflict between Rex and the others?''
       = oracle_banner @ conflict_template ''Rex'' ''Rex''"
  by code_simp

text \<open>
  Claim C6, amended. For a query that is not empty once stripped and whose lower-casing
  holds both \<^verbatim>\<open>conflict\<close> and \<^verbatim>\<open>between\<close>: when at least two master characters
  (counted as entries of the collection, so that equal names count separately) have names
  that occur in the query, letter case aside, the answer is the conflict template with the
  names of the first two such characters in the order of the master collection; otherwise
  it is the message that two names could not be identified.
\<close>

theorem conflict_advice:
  assumes "strip line \<noteq> []"
    and "str_in ''conflict'' (lower (strip line))"
    and "str_in ''between'' (lower (strip line))"
  shows "if 2 \<le> length (filter (mentions (strip line)) (master_characters (master data)))
         then \<exists>i j. i < j \<and> j < length (master_characters (master data))
                \<and> mentions (strip line) (master_characters (master data) ! i)
                \<and> mentions (strip line) (master_characters (master data) ! j)
                \<and> (\<forall>k<j. k \<noteq> i \<longrightarrow> \<not> mentions (strip line) (master_characters (master data) ! k))
                \<and> oracles_advice data line =
                    oracle_banner @ conflict_template (name (master_characters (master data) ! i))
                                                      (name (master_characters (master data) ! j))
         else oracles_advice data line = oracle_banner @ [Print no_two_names_message]"
proof -
  let ?cs = "master_characters (master data)" and ?q = "strip line"
  let ?m = "filter (mentions ?q) ?cs"
  show ?thesis
  proof (cases "2 \<le> length ?m")
    case True
    from first_two_of_filter [OF True] obtain i j where ij: "i < j" "j < length ?cs"
      "mentions ?q (?cs ! i)" "mentions ?q (?cs ! j)" "\<forall>k<j. k \<noteq> i \<longrightarrow> \<not> mentions ?q (?cs ! k)"
      "?m ! 0 = ?cs ! i" "?m ! 1 = ?cs ! j" by blast
    from True have "0 < length ?m" "1 < length ?m" by linarith+
    then have "map name ?m ! 0 = name (?m ! 0)" "map name ?m ! 1 = name (?m ! 1)"
      by (simp_all only: nth_map)
    with ij True assms
    have "oracles_advice data line = oracle_banner @ conflict_template (name (?cs ! i)) (name (?cs ! j))"
      by (simp add: oracles_advice_def Let_def mentioned_names_filter)
    with ij True show ?thesis by auto
  next
    case False
    with assms show ?thesis
      by (simp add: oracles_advice_def Let_def mentioned_names_filter)
  qed
qed

theorem conflict_advice_witness:
  "strip ''What conflicts could arise between Kade and Ava?'' \<noteq> []
   \<and> str_in ''conflict'' (lower (strip ''What conflicts could arise between Kade and Ava?''))
   \<and> str_in ''between'' (lower (strip ''What conflicts could arise between Kade and Ava?''))
   \<and> 2 \<le> length (filter (mentions (strip ''What conflicts could arise between Kade and Ava?''))
                       (master_characters (master ava_and_kade)))
   \<and> (\<exists>i j. i < j \<and> oracles_advice ava_and_kade ''What conflicts could arise between Kade and Ava?'' =
               oracle_banner @ conflict_template (name (master_characters (master ava_and_kade) ! i))
                                                 (name (master_characters (master ava_and_kade) ! j)))
   \<and> oracles_advice ava_and_kade ''What conflicts could arise between Kade and Ava?''
       = oracle_banner @ conflict_template ''Ava'' ''Kade''"
proof -
  let ?line = "''What conflicts could arise between Kade and Ava?''"
  have h1: "strip ?line \<noteq> []" by code_simp
  have h2: "str_in ''conflict'' (lower (strip ?line))" by code_simp
  have h3: "str_in ''between'' (lower (strip ?line))" by code_simp
  have h4: "2 \<le> length (filter (mentions (strip ?line)) (master_characters (master ava_and_kade)))"
    by code_simp
  have e: "oracles_advice ava_and_kade ?line = oracle_banner @ conflict_template ''Ava'' ''Kade''"
    by code_simp
  from conflict_advice [OF h1 h2 h3, of ava_and_kade] h4
  have "\<exists>i j. i < j \<and> oracles_advice ava_and_kade ?line =
               oracle_banner @ conflict_template (name (master_characters (master ava_and_kade) ! i))
                                                 (name (master_characters (master ava_and_kade) ! j))"
    by (simp only: if_True) blast
  with h1 h2 h3 h4 e show ?thesis by blast
qed

subsection \<open>Thematic cohesion\<close>

lemma map_of_count_theme:
  "map_of (count_theme t m) k =
     (if k = lower t then Some ((case map_of m k of None \<Rightarrow> 0 | Some n \<Rightarrow> n) + 1) else map_of m k)"
  by (simp add: count_theme_def update_conv)

lemma map_of_fold_count_theme:
  "map_of (fold count_theme ts m) k =
     (if filter (\<lambda>x. lower x = k) ts = [] then map_of m k
      else Some ((case map_of m k of None \<Rightarrow> 0 | Some n \<Rightarrow> n)
                 + length (filter (\<lambda>x. lower x = k) ts)))"
proof (induction ts arbitrary: m)
  case Nil
  then show ?case by simp
next
  case (Cons t ts)
  show ?case
    by (simp add: Cons.IH map_of_count_theme split: option.splits)
qed

lemma distinct_fold_count_theme:
  "distinct (map fst m) \<Longrightarrow> distinct (map fst (fold count_theme ts m))"
  by (induction ts arbitrary: m) (simp_all add: count_theme_def distinct_update)

lemma fold_fold_concat: "fold (\<lambda>b. fold f (g b)) bs m = fold f (concat (map g bs)) m"
  by (induction bs arbitrary: m) simp_all

lemma theme_counts_flat:
  "theme_counts data = fold count_theme (concat (map themes (books data))) []"
  by (simp add: theme_counts_def fold_fold_concat)

lemma distinct_theme_counts: "distinct (map fst (theme_counts data))"
  unfolding theme_counts_flat by (rule distinct_fold_count_theme) simp

lemma theme_counts_entry:
  "(t, cnt) \<in> set (theme_counts data) \<longleftrightarrow> 0 < cnt \<and> cnt = theme_occurrences data t"
proof -
  have "(t, cnt) \<in> set (theme_counts data) \<longleftrightarrow> map_of (theme_counts data) t = Some cnt"
    using distinct_theme_counts by simp
  also have "\<dots> \<longleftrightarrow> 0 < cnt \<and> cnt = theme_occurrences data t"
    unfolding theme_counts_flat theme_occurrences_def
    by (auto simp: map_of_fold_count_theme)
  finally show ?thesis .
qed

lemma theme_counts_empty:
  "theme_counts data = [] \<longleftrightarrow> (\<forall>b\<in>set (books data). themes b = [])"
proof
  assume e: "theme_counts data = []"
  show "\<forall>b\<in>set (books data). themes b = []"
  proof (rule ballI, rule ccontr)
    fix b assume b: "b \<in> set (books data)" and n: "themes b \<noteq> []"
    then obtain t where t: "t \<in> set (themes b)" by (cases "themes b") auto
    with b have "t \<in> set (concat (map themes (books data)))" by auto
    then have "0 < theme_occurrences data (lower t)"
      by (auto simp: theme_occurrences_def filter_empty_conv)
    then have "(lower t, theme_occurrences data (lower t)) \<in> set (theme_counts data)"
      by (simp add: theme_counts_entry)
    with e show False by simp
  qed
next
  assume "\<forall>b\<in>set (books data). themes b = []"
  then have c: "concat (map themes (books data)) = []" by simp
  show "theme_counts data = []" by (simp only: theme_counts_flat c fold.simps id_apply)
qed

lemma set_missing_themes:
  "set (missing_themes data) =
     {t. 0 < theme_occurrences data t
         \<and> 2 * theme_occurrences data t < max 1 (length (books data))}"
  (is "?L = ?R")
proof (rule set_eqI)
  fix t
  have "t \<in> ?L \<longleftrightarrow> (\<exists>cnt. (t, cnt) \<in> set (theme_counts data) \<and> 2 * cnt < max 1 (length (books data)))"
    by (force simp: missing_themes_def Let_def)
  also have "\<dots> \<longleftrightarrow> t \<in> ?R"
    by (auto simp: theme_counts_entry)
  finally show "t \<in> ?L \<longleftrightarrow> t \<in> ?R" .
qed

lemma distinct_missing_themes: "distinct (missing_themes data)"
  unfolding missing_themes_def Let_def
  using distinct_theme_counts by (simp add: distinct_map_filter)

lemma thematic_cohesion_no_themes:
  "thematic_cohesion data =
     [Print (CHR 0x0A # ''--- Thematic Cohesion Analysis ---''), Print no_themes_message]
   \<longleftrightarrow> theme_counts data = []"
proof (cases "theme_counts data = []")
  case True
  then show ?thesis by (simp add: thematic_cohesion_def)
next
  case False
  then have "3 \<le> length (thematic_cohesion data)"
    by (cases "theme_counts data") (simp_all add: thematic_cohesion_def)
  then have "thematic_cohesion data \<noteq>
      [Print (CHR 0x0A # ''--- Thematic Cohesion Analysis ---''), Print no_themes_message]"
    by auto
  with False show ?thesis by simp
qed

lemma weak_themes_printed:
  "Pretty weak_themes_message 2 \<in> set (thematic_cohesion data) \<longleftrightarrow> missing_themes data \<noteq> []"
proof (cases "theme_counts data = []")
  case True
  then show ?thesis by (simp add: thematic_cohesion_def missing_themes_def)
next
  case False
  then show ?thesis by (auto simp: thematic_cohesion_def)
qed

lemma filter_length_distinct_map:
  assumes "distinct (map f xs)"
  shows "length (filter (\<lambda>x. f x = t) xs) = (if t \<in> f ` set xs then 1 else 0)"
proof (cases "t \<in> f ` set xs")
  case True
  then have "filter (\<lambda>x. f x = t) xs \<noteq> []" by (auto simp: filter_empty_conv)
  then have "0 < length (filter (\<lambda>x. f x = t) xs)" by simp
  moreover from assms have "length (filter (\<lambda>x. f x = t) xs) \<le> 1"
    by (simp add: distinct_map_filter_length)
  ultimately have "length (filter (\<lambda>x. f x = t) xs) = 1" by linarith
  with True show ?thesis by simp
next
  case False
  then have "filter (\<lambda>x. f x = t) xs = []" by (auto simp: filter_empty_conv)
  with False show ?thesis by simp
qed

lemma occurrences_as_books:
  assumes "\<forall>b\<in>set (books data). distinct (map lower (themes b))"
  shows "theme_occurrences data t
         = length (filter (\<lambda>b. t \<in> set (map lower (themes b))) (books data))"
  unfolding theme_occurrences_def using assms
proof (induction "books data" arbitrary: data)
  case Nil
  then show ?case by simp
next
  case (Cons b bs)
  let ?d = "data\<lparr>books := bs\<rparr>"
  from Cons.hyps(2) have bd: "bs = books ?d" by simp
  from Cons.prems Cons.hyps(2) [symmetric] have "\<forall>b\<in>set (books ?d). distinct (map lower (themes b))"
    by simp
  with Cons.hyps(1) [OF bd]
  have ih: "length (filter (\<lambda>x. lower x = t) (concat (map themes bs)))
        = length (filter (\<lambda>b. t \<in> set (map lower (themes b))) bs)" by simp
  from Cons.prems Cons.hyps(2) [symmetric] have "distinct (map lower (themes b))" by simp
  then have "length (filter (\<lambda>x. lower x = t) (themes b)) = (if t \<in> lower ` set (themes b) then 1 else 0)"
    by (rule filter_length_distinct_map)
  with ih show ?case unfolding Cons.hyps(2) [symmetric] by simp
qed

text \<open>
  Claim C9. \<^const>\<open>thematic_cohesion\<close> prints the no-themes message, and nothing after it,
  exactly when no book has a theme tag. The list \<^verbatim>\<open>missing\<close> of under-represented themes
  holds, each once, exactly the lower-cased themes that occur in some book and whose number
  of occurrences in the theme lists of all books, doubled, is below the number of books
  (taken as 1 when there is none); the observation about weak themes is printed exactly
  when that list is not empty. In particular, with four books, a theme that occurs once
  is in the list. The number of occurrences of a theme is the number of books that list it
  when no book lists a theme twice, letter case aside.
\<close>

theorem thematic_cohesion_report:
  "(thematic_cohesion data =
      [Print (CHR 0x0A # ''--- Thematic Cohesion Analysis ---''), Print no_themes_message]
    \<longleftrightarrow> (\<forall>b\<in>set (books data). themes b = []))
   \<and> distinct (missing_themes data)
   \<and> set (missing_themes data) =
       {t. 0 < theme_occurrences data t
           \<and> 2 * theme_occurrences data t < max 1 (length (books data))}
   \<and> (Pretty weak_themes_message 2 \<in> set (thematic_cohesion data) \<longleftrightarrow> missing_themes data \<noteq> [])
   \<and> (length (books data) = 4 \<and> theme_occurrences data t = 1 \<longrightarrow> t \<in> set (missing_themes data))
   \<and> ((\<forall>b\<in>set (books data). distinct (map lower (themes b))) \<longrightarrow>
        theme_occurrences data t
          = length (filter (\<lambda>b. t \<in> set (map lower (themes b))) (books data)))"
proof -
  have c1: "thematic_cohesion data =
      [Print (CHR 0x0A # ''--- Thematic Cohesion Analysis ---''), Print no_themes_message]
    \<longleftrightarrow> (\<forall>b\<in>set (books data). themes b = [])"
    by (simp only: thematic_cohesion_no_themes theme_counts_empty)
  have c5: "length (books data) = 4 \<and> theme_occurrences data t = 1 \<longrightarrow> t \<in> set (missing_themes data)"
    by (simp add: set_missing_themes)
  have c6: "(\<forall>b\<in>set (books data). distinct (map lower (themes b))) \<longrightarrow>
        theme_occurrences data t
          = length (filter (\<lambda>b. t \<in> set (map lower (themes b))) (books data))"
    using occurrences_as_books by blast
  from c1 distinct_missing_themes [of data] set_missing_themes [of data]
    weak_themes_printed [of data] c5 c6
  show ?thesis by (intro conjI)
qed

theorem thematic_cohesion_report_witness:
  "length (books four_books) = 4
   \<and> theme_occurrences four_books ''betrayal'' = 1
   \<and> theme_occurrences four_books ''hope'' = 3
   \<and> ''betrayal'' \<in> set (missing_themes four_books)
   \<and> missing_themes four_books = [''betrayal'']"
proof -
  have h1: "length (books four_books) = 4" by code_simp
  have h2: "theme_occurrences four_books ''betrayal'' = 1" by code_simp
  have h3: "theme_occurrences four_books ''hope'' = 3" by code_simp
  have e: "missing_themes four_books = [''betrayal'']" by code_simp
  from thematic_cohesion_report [of four_books "''betrayal''"] h1 h2
  have "''betrayal'' \<in> set (missing_themes four_books)" by blast
  with h1 h2 h3 e show ?thesis by blast
qed

subsection \<open>Persistence: strings\<close>






subsection \<open>Persistence: integers\<close>











subsection \<open>Persistence: values\<close>























lemma wf_optional [simp]: "wf_json (optional_int_value x)" "wf_json (optional_str_value y)"
  by (simp_all add: optional_int_value_def optional_str_value_def split: option.splits)

lemma wf_strings [simp]: "list_all wf_json (map JStr xs)"
  by (simp add: list_all_iff)

lemma wf_profile_value [simp]: "wf_json (profile_value p)"
  by (simp add: profile_value_def)

lemma wf_event_value [simp]: "wf_json (event_value e)"
  by (simp add: event_value_def)

lemma wf_character_value [simp]: "wf_json (character_value c)"
  by (simp add: character_value_def)

lemma wf_location_value [simp]: "wf_json (location_value l)"
  by (simp add: location_value_def)

lemma wf_lore_value [simp]: "wf_json (lore_value l)"
  by (simp add: lore_value_def)

lemma wf_series_value [simp]: "wf_json (series_value s)"
  by (simp add: series_value_def)

lemma wf_timeline_event_value [simp]: "wf_json (timeline_event_value e)"
  by (simp add: timeline_event_value_def)



subsection \<open>Persistence: the document\<close>

lemma optional_int_value_eq [simp]: "optional_int_value x = optional_int_value y \<longleftrightarrow> x = y"
  by (auto simp: optional_int_value_def split: option.splits)

lemma optional_str_value_eq [simp]: "optional_str_value x = optional_str_value y \<longleftrightarrow> x = y"
  by (auto simp: optional_str_value_def split: option.splits)

lemma map_JStr_eq [simp]: "map JStr xs = map JStr ys \<longleftrightarrow> xs = ys"
  by (simp add: inj_map_eq_map inj_def)

lemma profile_value_eq [simp]: "profile_value p = profile_value q \<longleftrightarrow> p = q"
  by (cases p; cases q) (simp add: profile_value_def)

lemma event_value_eq [simp]: "event_value p = event_value q \<longleftrightarrow> p = q"
  by (cases p; cases q) (simp add: event_value_def)

lemma character_value_eq [simp]: "character_value p = character_value q \<longleftrightarrow> p = q"
  by (cases p; cases q) (simp add: character_value_def)

lemma location_value_eq [simp]: "location_value p = location_value q \<longleftrightarrow> p = q"
  by (cases p; cases q) (simp add: location_value_def)

lemma lore_value_eq [simp]: "lore_value p = lore_value q \<longleftrightarrow> p = q"
  by (cases p; cases q) (simp add: lore_value_def)

lemma series_value_eq [simp]: "series_value p = series_value q \<longleftrightarrow> p = q"
  by (cases p; cases q) (simp add: series_value_def)

lemma timeline_event_value_eq [simp]: "timeline_event_value p = timeline_event_value q \<longleftrightarrow> p = q"
  by (cases p; cases q) (simp add: timeline_event_value_def)

lemma map_value_eq:
  "(\<And>x y. f x = f y \<longleftrightarrow> x = y) \<Longrightarrow> map f xs = map f ys \<longleftrightarrow> xs = ys"
  by (simp add: inj_map_eq_map inj_def)

lemma profiles_value_eq [simp]:
  "map (\<lambda>(cid, p). (cid, profile_value p)) xs = map (\<lambda>(cid, p). (cid, profile_value p)) ys
     \<longleftrightarrow> xs = ys"
  by (rule map_value_eq) auto

lemma book_value_eq [simp]: "book_value p = book_value q \<longleftrightarrow> p = q"
  by (cases p; cases q) (simp add: book_value_def map_value_eq)





end
